theory Spec2Isabelle
  imports Complex_Main
begin

section \<open>Python values used by the timesheet code\<close>

text \<open>
  The code is Python 2: a document is a byte string, so a character is a \<^typ>\<open>char\<close>
  and a text is a \<^typ>\<open>string\<close>. Exceptions are values of \<open>error\<close>; a computation
  that may raise returns \<open>error + 'a\<close> with \<open>Inl\<close> the exception.
\<close>

datatype error =
    ParseError string
  | ValueError string
  | TypeError string
  | AttributeError string
  | IndexError string
  | KeyError string
  | UnboundLocalError string

definition bindE :: "error + 'a \<Rightarrow> ('a \<Rightarrow> error + 'b) \<Rightarrow> error + 'b" where
  "bindE m f = (case m of Inl e \<Rightarrow> Inl e | Inr x \<Rightarrow> f x)"

subsection \<open>Characters and the string methods the parser calls\<close>

definition LF :: char where "LF = CHR 0x0A"
definition CR :: char where "CR = CHR 0x0D"

definition isspace :: "char \<Rightarrow> bool" where
  \<comment> \<open>\<open>str.isspace\<close> on one byte: space, tab, line feed, vertical tab, form feed, carriage return\<close>
  "isspace c = (c = CHR '' '' \<or> c = CHR 0x09 \<or> c = CHR 0x0A \<or> c = CHR 0x0B
                 \<or> c = CHR 0x0C \<or> c = CHR 0x0D)"

definition isdigit :: "char \<Rightarrow> bool" where
  \<comment> \<open>what \<open>\\d\<close> matches on a byte string\<close>
  "isdigit c = (c \<in> set ''0123456789'')"

definition strip :: "string \<Rightarrow> string" where
  "strip s = rev (dropWhile isspace (rev (dropWhile isspace s)))"

fun splitlines_from :: "string \<Rightarrow> string \<Rightarrow> string list" where
  "splitlines_from cur [] = (if cur = [] then [] else [cur])"
| "splitlines_from cur [c] =
     (if c = LF \<or> c = CR then [cur] else [cur @ [c]])"
| "splitlines_from cur (c # d # cs) =
     (if c = LF then cur # splitlines_from [] (d # cs)
      else if c = CR then
        (if d = LF then cur # splitlines_from [] cs
         else cur # splitlines_from [] (d # cs))
      else splitlines_from (cur @ [c]) (d # cs))"

definition splitlines :: "string \<Rightarrow> string list" where
  \<comment> \<open>\<open>str.splitlines()\<close>: breaks at \<open>\\n\<close>, \<open>\\r\<close> and \<open>\\r\\n\<close>, the breaks are dropped,
      and a final break opens no further line\<close>
  "splitlines s = splitlines_from [] s"

fun split_none :: "nat \<Rightarrow> string \<Rightarrow> string list" where
  \<comment> \<open>\<open>s.split(None, n)\<close>: chunks between whitespace runs, at most \<open>n\<close> cuts; what is left
      after the last cut loses its leading whitespace only\<close>
  "split_none 0 s =
     (let r = dropWhile isspace s in if r = [] then [] else [r])"
| "split_none (Suc n) s =
     (let r = dropWhile isspace s in
      if r = [] then []
      else takeWhile (\<lambda>c. \<not> isspace c) r
           # split_none n (dropWhile (\<lambda>c. \<not> isspace c) r))"

definition join :: "string \<Rightarrow> string list \<Rightarrow> string" where
  \<comment> \<open>\<open>sep.join(parts)\<close>\<close>
  "join sep parts =
     (case parts of [] \<Rightarrow> [] | p # ps \<Rightarrow> p @ concat (map (\<lambda>q. sep @ q) ps))"

definition replace_qmark :: "string \<Rightarrow> string" where
  \<comment> \<open>\<open>s.replace('?', '')\<close>\<close>
  "replace_qmark s = filter (\<lambda>c. c \<noteq> CHR ''?'') s"

definition digit_val :: "char \<Rightarrow> int" where
  "digit_val c = int (of_char c) - 48"

definition int_of_digits :: "string \<Rightarrow> int" where
  "int_of_digits s = foldl (\<lambda>a c. 10 * a + digit_val c) 0 s"

definition py_int :: "string option \<Rightarrow> error + int" where
  \<comment> \<open>\<open>int(x)\<close> for a regular-expression group: \<open>None\<close> is a TypeError, a string has to be
      a non-empty run of digits (the groups of this code always are)\<close>
  "py_int g =
     (case g of
        None \<Rightarrow> Inl (TypeError ''int() argument must be a string or a number'')
      | Some s \<Rightarrow>
          if s \<noteq> [] \<and> list_all isdigit s then Inr (int_of_digits s)
          else Inl (ValueError ''invalid literal for int() with base 10''))"

subsection \<open>\<open>float(str)\<close>\<close>

text \<open>
  A Python float is kept as the exact rational that the decimal literal denotes, or as one
  of the special values; the rounding to binary64 is not part of the model.
\<close>

datatype pyfloat = Finite rat | Infinite bool | NaN

definition lower :: "string \<Rightarrow> string" where
  "lower s = map (\<lambda>c. if (65::nat) \<le> of_char c \<and> of_char c \<le> (90::nat)
                         then char_of (of_char c + (32::nat)) else c) s"

definition is_sign :: "char \<Rightarrow> bool" where
  "is_sign c = (c = CHR ''+'' \<or> c = CHR ''-'')"

definition parse_exponent :: "string \<Rightarrow> int option" where
  \<comment> \<open>the part after the mantissa: nothing, or \<open>e\<close>/\<open>E\<close>, an optional sign and digits\<close>
  "parse_exponent r =
     (case r of
        [] \<Rightarrow> Some 0
      | c # r1 \<Rightarrow>
          if c = CHR ''e'' \<or> c = CHR ''E'' then
            (let neg = (r1 \<noteq> [] \<and> hd r1 = CHR ''-'');
                 ds = (if r1 \<noteq> [] \<and> is_sign (hd r1) then tl r1 else r1)
             in if ds \<noteq> [] \<and> list_all isdigit ds
                then Some (if neg then - int_of_digits ds else int_of_digits ds)
                else None)
          else None)"

definition parse_decimal :: "string \<Rightarrow> rat option" where
  \<comment> \<open>digits, an optional point and digits (one of the two runs non-empty), an exponent\<close>
  "parse_decimal s =
     (let ip = takeWhile isdigit s;
          r1 = dropWhile isdigit s;
          pt = (r1 \<noteq> [] \<and> hd r1 = CHR ''.'');
          fp = (if pt then takeWhile isdigit (tl r1) else []);
          r2 = (if pt then dropWhile isdigit (tl r1) else r1)
      in if ip = [] \<and> fp = [] then None
         else (case parse_exponent r2 of
                 None \<Rightarrow> None
               | Some e \<Rightarrow>
                   Some (of_int (int_of_digits (ip @ fp))
                         * (if int (length fp) \<le> e
                            then 10 ^ nat (e - int (length fp))
                            else 1 / 10 ^ nat (int (length fp) - e)))))"

definition py_float :: "string \<Rightarrow> error + pyfloat" where
  "py_float str =
     (let s = strip str;
          neg = (s \<noteq> [] \<and> hd s = CHR ''-'');
          body = (if s \<noteq> [] \<and> is_sign (hd s) then tl s else s)
      in if lower body = ''inf'' \<or> lower body = ''infinity'' then Inr (Infinite neg)
         else if lower body = ''nan'' then Inr NaN
         else (case parse_decimal body of
                 None \<Rightarrow> Inl (ValueError ''could not convert string to float'')
               | Some q \<Rightarrow> Inr (Finite (if neg then - q else q))))"

subsection \<open>\<open>datetime.time\<close> and \<open>datetime.date\<close>\<close>

datatype time = Time (hour: int) (minute: int)

definition py_time :: "int \<Rightarrow> int \<Rightarrow> error + time" where
  \<comment> \<open>\<open>datetime.time(hour, minute)\<close>: the hour is checked before the minute\<close>
  "py_time h m =
     (if \<not> (0 \<le> h \<and> h \<le> 23) then Inl (ValueError ''hour must be in 0..23'')
      else if \<not> (0 \<le> m \<and> m \<le> 59) then Inl (ValueError ''minute must be in 0..59'')
      else Inr (Time h m))"

datatype date = Date (year: int) (month: int) (day: int)

definition is_leap :: "int \<Rightarrow> bool" where
  "is_leap y = (y mod 4 = 0 \<and> (y mod 100 \<noteq> 0 \<or> y mod 400 = 0))"

definition days_in_month :: "int \<Rightarrow> int \<Rightarrow> int" where
  "days_in_month y m =
     (if m = 2 then (if is_leap y then 29 else 28)
      else if m = 4 \<or> m = 6 \<or> m = 9 \<or> m = 11 then 30 else 31)"

definition py_date :: "int \<Rightarrow> int \<Rightarrow> int \<Rightarrow> error + date" where
  \<comment> \<open>\<open>datetime.date(year, month, day)\<close>\<close>
  "py_date y m d =
     (if \<not> (1 \<le> y \<and> y \<le> 9999) then Inl (ValueError ''year is out of range'')
      else if \<not> (1 \<le> m \<and> m \<le> 12) then Inl (ValueError ''month must be in 1..12'')
      else if \<not> (1 \<le> d \<and> d \<le> days_in_month y m)
        then Inl (ValueError ''day is out of range for month'')
      else Inr (Date y m d))"

subsection \<open>\<open>re.match\<close>\<close>

text \<open>
  The two grammars are regular expressions without repetition operators other than
  \<open>{1,2}\<close>, \<open>{4}\<close>, \<open>{2}\<close> and \<open>?\<close>, which unfold into sequence and ordered choice.
  \<open>rx_run\<close> is the backtracking matcher: it returns every way to match a prefix, in the
  order in which backtracking tries them, each with the groups captured on the way and the
  text left over; \<open>re_match\<close> takes the first.
\<close>

datatype rx =
    Digit                \<comment> \<open>\<open>\\d\<close>\<close>
  | NonDigit             \<comment> \<open>\<open>\\D\<close>\<close>
  | Lit char
  | Eps
  | Seq rx rx
  | Alt rx rx            \<comment> \<open>ordered choice: the left side is tried first\<close>
  | Group nat rx         \<comment> \<open>a capturing group and its number\<close>

type_synonym groups = "nat \<Rightarrow> string option"

fun rx_run :: "rx \<Rightarrow> groups \<times> string \<Rightarrow> (groups \<times> string) list" where
  "rx_run Digit (g, s) =
     (case s of [] \<Rightarrow> [] | c # r \<Rightarrow> if isdigit c then [(g, r)] else [])"
| "rx_run NonDigit (g, s) =
     (case s of [] \<Rightarrow> [] | c # r \<Rightarrow> if isdigit c then [] else [(g, r)])"
| "rx_run (Lit a) (g, s) =
     (case s of [] \<Rightarrow> [] | c # r \<Rightarrow> if c = a then [(g, r)] else [])"
| "rx_run Eps (g, s) = [(g, s)]"
| "rx_run (Seq a b) (g, s) = concat (map (rx_run b) (rx_run a (g, s)))"
| "rx_run (Alt a b) (g, s) = rx_run a (g, s) @ rx_run b (g, s)"
| "rx_run (Group n a) (g, s) =
     map (\<lambda>(g', r). (g'(n := Some (take (length s - length r) s)), r)) (rx_run a (g, s))"

definition re_match :: "rx \<Rightarrow> string \<Rightarrow> groups option" where
  "re_match r s =
     (case rx_run r (\<lambda>_. None, s) of [] \<Rightarrow> None | (g, _) # _ \<Rightarrow> Some g)"

definition opt :: "rx \<Rightarrow> rx" where
  \<comment> \<open>greedy \<open>r?\<close>\<close>
  "opt r = Alt r Eps"

definition digits12 :: rx where
  \<comment> \<open>\<open>\\d{1,2}\<close>, greedy\<close>
  "digits12 = Alt (Seq Digit Digit) Digit"

definition digits2 :: rx where
  "digits2 = Seq Digit Digit"

definition digits4 :: rx where
  "digits4 = Seq Digit (Seq Digit (Seq Digit Digit))"

section \<open>The duration grammar\<close>

datatype duration = Hours pyfloat | TimeRange "time option" "time option"

definition hhmm :: "nat \<Rightarrow> nat \<Rightarrow> rx" where
  \<comment> \<open>\<open>(\\d{1,2}):?(\\d{1,2})\<close> with the two group numbers\<close>
  "hhmm i j = Seq (Group i digits12) (Seq (opt (Lit CHR '':'')) (Group j digits12))"

definition time_rx :: rx where
  \<comment> \<open>\<open>(?:(\\d{1,2}):?(\\d{1,2}))?-(?:(?:(\\d{1,2}):?(\\d{1,2}))|\\?)\<close>\<close>
  "time_rx = Seq (opt (hhmm 1 2)) (Seq (Lit CHR ''-'') (Alt (hhmm 3 4) (Lit CHR ''?'')))"

definition time_end_of :: "groups \<Rightarrow> error + time option" where
  \<comment> \<open>\<open>time_end\<close>: stays \<open>None\<close> unless groups 3 and 4 both matched\<close>
  "time_end_of g =
     (if g 3 \<noteq> None \<and> g 4 \<noteq> None then
        bindE (py_int (g 3)) (\<lambda>h. bindE (py_int (g 4)) (\<lambda>m.
          bindE (py_time h m) (\<lambda>t. Inr (Some t))))
      else Inr None)"

definition as_parse_error :: "error + 'a \<Rightarrow> error + 'a" where
  \<comment> \<open>\<open>except ValueError as e: raise ParseError(e.message)\<close>\<close>
  "as_parse_error r = (case r of Inl (ValueError m) \<Rightarrow> Inl (ParseError m) | _ \<Rightarrow> r)"

definition parse_time :: "string \<Rightarrow> error + duration" where
  "parse_time str_time =
     (case re_match time_rx str_time of
        Some g \<Rightarrow>
          as_parse_error
            (if g 1 = None \<and> g 2 = None then
               bindE (time_end_of g) (\<lambda>time_end. Inr (TimeRange None time_end))
             else
               bindE (py_int (g 1)) (\<lambda>h. bindE (py_int (g 2)) (\<lambda>m.
               bindE (py_time h m) (\<lambda>time_start.
               bindE (time_end_of g) (\<lambda>time_end.
                 Inr (TimeRange (Some time_start) time_end))))))
      | None \<Rightarrow>
          (case py_float str_time of
             Inl (ValueError _) \<Rightarrow>
               Inl (ParseError ''The duration must be a float number or a HH:mm string'')
           | Inl e \<Rightarrow> Inl e
           | Inr x \<Rightarrow> Inr (Hours x)))"

definition time_tail :: rx where
  \<comment> \<open>the part of \<open>time_rx\<close> after the optional start: \<open>-(?:(?:(\\d{1,2}):?(\\d{1,2}))|\\?)\<close>\<close>
  "time_tail = Seq (Lit CHR ''-'') (Alt (hhmm 3 4) (Lit CHR ''?''))"

section \<open>The date grammar\<close>

definition date_dmy_rx :: rx where
  \<comment> \<open>\<open>(\\d{1,2})\\D(\\d{1,2})\\D(\\d{4}|\\d{2})\<close>\<close>
  "date_dmy_rx =
     Seq (Group 1 digits12) (Seq NonDigit (Seq (Group 2 digits12) (Seq NonDigit
       (Group 3 (Alt digits4 digits2)))))"

definition date_ymd_rx :: rx where
  \<comment> \<open>\<open>(\\d{4})\\D(\\d{1,2})\\D(\\d{1,2})\<close>\<close>
  "date_ymd_rx =
     Seq (Group 1 digits4) (Seq NonDigit (Seq (Group 2 digits12) (Seq NonDigit
       (Group 3 digits12))))"

definition py_len :: "string option \<Rightarrow> error + nat" where
  \<comment> \<open>\<open>len(x)\<close> for a regular-expression group\<close>
  "py_len g =
     (case g of
        None \<Rightarrow> Inl (TypeError ''object of type NoneType has no len()'')
      | Some s \<Rightarrow> Inr (length s))"

definition extract_date :: "int \<Rightarrow> string \<Rightarrow> error + date" where
  \<comment> \<open>\<open>current_year\<close> stands for \<open>datetime.date.today().year\<close>\<close>
  "extract_date current_year line =
     (let date_matches =
            (case re_match date_dmy_rx line of
               None \<Rightarrow> re_match date_ymd_rx line
             | Some g \<Rightarrow> Some g)
      in case date_matches of
           None \<Rightarrow> Inl (ValueError ''No date could be extracted from the given value'')
         | Some g \<Rightarrow>
             bindE (py_len (g 1)) (\<lambda>n1.
               if n1 = 4 then
                 bindE (py_int (g 1)) (\<lambda>y. bindE (py_int (g 2)) (\<lambda>m.
                 bindE (py_int (g 3)) (\<lambda>d. py_date y m d)))
               else
                 bindE (py_len (g 3)) (\<lambda>n3.
                 bindE (if n3 = 2 then
                          (let current_millennium = current_year - (current_year mod 1000)
                           in bindE (py_int (g 3)) (\<lambda>y. Inr (current_millennium + y)))
                        else py_int (g 3)) (\<lambda>year.
                 bindE (py_int (g 2)) (\<lambda>m. bindE (py_int (g 1)) (\<lambda>d.
                   py_date year m d))))))"

section \<open>Lines\<close>

text \<open>
  \<open>EntryLine\<close> as a record: the fields are the instance attributes \<open>_alias\<close>, \<open>duration\<close>,
  \<open>description\<close>, \<open>commented\<close>, \<open>ignored\<close> and \<open>_text\<close>, the last one \<open>None\<close> or the
  original text of the line.
\<close>

record entry_line =
  line_alias :: string
  line_duration :: duration
  line_description :: string
  line_commented :: bool
  line_ignored :: bool
  line_text :: "string option"

datatype line =
    TextLine string
  | DateLine date string
  | EntryLine entry_line

definition is_EntryLine :: "line \<Rightarrow> bool" where
  "is_EntryLine l = (case l of EntryLine _ \<Rightarrow> True | _ \<Rightarrow> False)"

definition is_DateLine :: "line \<Rightarrow> bool" where
  "is_DateLine l = (case l of DateLine _ _ \<Rightarrow> True | _ \<Rightarrow> False)"

definition is_DateLine_of :: "date \<Rightarrow> line \<Rightarrow> bool" where
  \<comment> \<open>\<open>isinstance(line, DateLine) and line.date == date\<close>\<close>
  "is_DateLine_of d l = (case l of DateLine d' _ \<Rightarrow> d' = d | _ \<Rightarrow> False)"

definition text_of :: "line \<Rightarrow> string option" where
  \<comment> \<open>the property \<open>text\<close>, which every line class takes from \<open>TextLine\<close>: it returns \<open>_text\<close>\<close>
  "text_of l =
     (case l of TextLine t \<Rightarrow> Some t | DateLine _ t \<Rightarrow> Some t | EntryLine e \<Rightarrow> line_text e)"

subsection \<open>\<open>EntryLine.__setattr__\<close>\<close>

text \<open>
  An assignment \<open>line.name = value\<close> is a value of \<open>line_assignment\<close>: the names are the six
  instance attributes and the two properties \<open>alias\<close> and \<open>text\<close>, whose setters assign
  \<open>_alias\<close> and \<open>_text\<close>.
\<close>

datatype line_assignment =
    Set_line_alias_attr string          \<comment> \<open>\<open>_alias\<close>\<close>
  | Set_line_duration duration
  | Set_line_description string
  | Set_line_commented bool
  | Set_line_ignored bool
  | Set_line_text_attr "string option"  \<comment> \<open>\<open>_text\<close>\<close>
  | Set_line_alias string               \<comment> \<open>the property \<open>alias\<close>\<close>
  | Set_line_text "string option"       \<comment> \<open>the property \<open>text\<close>\<close>

definition attr_name :: "line_assignment \<Rightarrow> string" where
  "attr_name a =
     (case a of
        Set_line_alias_attr _ \<Rightarrow> ''_alias''
      | Set_line_duration _ \<Rightarrow> ''duration''
      | Set_line_description _ \<Rightarrow> ''description''
      | Set_line_commented _ \<Rightarrow> ''commented''
      | Set_line_ignored _ \<Rightarrow> ''ignored''
      | Set_line_text_attr _ \<Rightarrow> ''_text''
      | Set_line_alias _ \<Rightarrow> ''alias''
      | Set_line_text _ \<Rightarrow> ''text'')"

definition clear_unless_text :: "string \<Rightarrow> entry_line \<Rightarrow> entry_line" where
  \<comment> \<open>\<open>if name != '_text': self._text = None\<close>\<close>
  "clear_unless_text name e = (if name \<noteq> ''_text'' then e\<lparr>line_text := None\<rparr> else e)"

definition setattr_instance :: "line_assignment \<Rightarrow> entry_line \<Rightarrow> entry_line" where
  \<comment> \<open>\<open>EntryLine.__setattr__\<close> for a name that is an instance attribute: store the value,
      then clear \<open>_text\<close> unless the name is \<open>_text\<close>\<close>
  "setattr_instance a e =
     clear_unless_text (attr_name a)
       (case a of
          Set_line_alias_attr v \<Rightarrow> e\<lparr>line_alias := v\<rparr>
        | Set_line_duration v \<Rightarrow> e\<lparr>line_duration := v\<rparr>
        | Set_line_description v \<Rightarrow> e\<lparr>line_description := v\<rparr>
        | Set_line_commented v \<Rightarrow> e\<lparr>line_commented := v\<rparr>
        | Set_line_ignored v \<Rightarrow> e\<lparr>line_ignored := v\<rparr>
        | Set_line_text_attr v \<Rightarrow> e\<lparr>line_text := v\<rparr>
        | _ \<Rightarrow> e)"

definition EntryLine_setattr :: "line_assignment \<Rightarrow> entry_line \<Rightarrow> entry_line" where
  \<comment> \<open>\<open>EntryLine.__setattr__(name, value)\<close>: \<open>super().__setattr__\<close> runs the setter of a
      property, which assigns the instance attribute through \<open>__setattr__\<close> again; then the
      outer call clears \<open>_text\<close> unless its own name is \<open>_text\<close>\<close>
  "EntryLine_setattr a e =
     (case a of
        Set_line_alias v \<Rightarrow>
          clear_unless_text (attr_name a) (setattr_instance (Set_line_alias_attr v) e)
      | Set_line_text v \<Rightarrow>
          clear_unless_text (attr_name a) (setattr_instance (Set_line_text_attr v) e)
      | _ \<Rightarrow> setattr_instance a e)"

definition EntryLine_init ::
    "string \<Rightarrow> duration \<Rightarrow> string \<Rightarrow> string option \<Rightarrow> entry_line" where
  \<comment> \<open>\<open>EntryLine.__init__(alias, duration, description, text=None)\<close>: five assignments, each
      of which leaves \<open>_text\<close> at \<open>None\<close>, then \<open>_text = text\<close> if a text is given\<close>
  "EntryLine_init alias duration description text =
     (let e = \<lparr>line_alias = alias, line_duration = duration,
                line_description = description, line_commented = False,
                line_ignored = False, line_text = None\<rparr>
      in case text of None \<Rightarrow> e | Some t \<Rightarrow> EntryLine_setattr (Set_line_text_attr (Some t)) e)"

definition EntryLine_alias :: "entry_line \<Rightarrow> string" where
  \<comment> \<open>the property \<open>alias\<close>: \<open>self._alias.replace('?', '')\<close>\<close>
  "EntryLine_alias e = replace_qmark (line_alias e)"

section \<open>The line grammar\<close>

definition parse_entry_line :: "string \<Rightarrow> error + line" where
  \<comment> \<open>\<open>TimesheetParser._parse_entry_line\<close>\<close>
  "parse_entry_line line =
     (case split_none 2 line of
        [alias, t, description] \<Rightarrow>
          bindE (parse_time t) (\<lambda>time.
            Inr (EntryLine (EntryLine_init alias time description (Some line))))
      | _ \<Rightarrow> Inl (ParseError ''Couldn't split line into 3 chunks''))"

fun parser :: "int \<Rightarrow> date option \<Rightarrow> string list \<Rightarrow> error + line list" where
  \<comment> \<open>\<open>TimesheetParser.parser\<close>, the generator run to its end: the second argument is
      \<open>current_date\<close>; the first line that raises ends the run\<close>
  "parser cy current_date [] = Inr []"
| "parser cy current_date (l # ls) =
     (let line = strip l in
      if length line = 0 \<or> hd line = CHR ''#'' then
        bindE (parser cy current_date ls) (\<lambda>rest. Inr (TextLine line # rest))
      else
        (case extract_date cy line of
           Inl (ValueError _) \<Rightarrow>
             if current_date = None then
               Inl (ParseError ''Entries must be defined inside a date section'')
             else
               bindE (parse_entry_line line) (\<lambda>e.
               bindE (parser cy current_date ls) (\<lambda>rest. Inr (e # rest)))
         | Inl err \<Rightarrow> Inl err
         | Inr date \<Rightarrow>
             bindE (parser cy (Some date) ls) (\<lambda>rest. Inr (DateLine date line # rest))))"

definition parse :: "int \<Rightarrow> string \<Rightarrow> error + line list" where
  \<comment> \<open>\<open>TimesheetParser.parse\<close>\<close>
  "parse cy text = parser cy None (splitlines text)"

section \<open>Entries and the collection\<close>

text \<open>
  Line objects are shared: the Document holds them in order and an entry holds the one it
  is bound to, and \<open>line in lines_to_delete\<close> compares them by identity. So every line of
  the Document carries the reference of its object, a number drawn from \<open>next_ref\<close> when
  the object is created, and an entry holds the reference of its line. A line that is no
  longer in the Document is read by no code, and is not kept.
\<close>

record timesheet_entry =
  entry_line :: "nat option"      \<comment> \<open>\<open>line\<close>\<close>
  entry_ignored :: bool
  entry_commented :: bool
  entry_alias :: string
  entry_description :: string
  entry_duration :: duration

record collection =
  lines :: "(nat \<times> line) list"
  next_ref :: nat
  entries :: "date \<Rightarrow> timesheet_entry list option"
  synchronized :: bool
  add_date_to_bottom :: bool

datatype entry_assignment =
    Set_line "nat option"
  | Set_ignored bool
  | Set_commented bool
  | Set_alias string
  | Set_description string
  | Set_duration duration

definition store_entry_attr :: "entry_assignment \<Rightarrow> timesheet_entry \<Rightarrow> timesheet_entry" where
  "store_entry_attr a x =
     (case a of
        Set_line v \<Rightarrow> x\<lparr>entry_line := v\<rparr>
      | Set_ignored v \<Rightarrow> x\<lparr>entry_ignored := v\<rparr>
      | Set_commented v \<Rightarrow> x\<lparr>entry_commented := v\<rparr>
      | Set_alias v \<Rightarrow> x\<lparr>entry_alias := v\<rparr>
      | Set_description v \<Rightarrow> x\<lparr>entry_description := v\<rparr>
      | Set_duration v \<Rightarrow> x\<lparr>entry_duration := v\<rparr>)"

definition forwarded :: "entry_assignment \<Rightarrow> line_assignment option" where
  \<comment> \<open>\<open>hasattr(self.line, name)\<close> for an \<open>EntryLine\<close>, and the assignment then made to it\<close>
  "forwarded a =
     (case a of
        Set_line _ \<Rightarrow> None
      | Set_ignored v \<Rightarrow> Some (Set_line_ignored v)
      | Set_commented v \<Rightarrow> Some (Set_line_commented v)
      | Set_alias v \<Rightarrow> Some (Set_line_alias v)
      | Set_description v \<Rightarrow> Some (Set_line_description v)
      | Set_duration v \<Rightarrow> Some (Set_line_duration v))"

definition update_line ::
    "nat \<Rightarrow> line_assignment \<Rightarrow> (nat \<times> line) list \<Rightarrow> (nat \<times> line) list" where
  \<comment> \<open>\<open>setattr(line, name, value)\<close> on the line object with the given reference; a
      \<open>TextLine\<close> or \<open>DateLine\<close> has none of the forwarded names\<close>
  "update_line r a ls =
     map (\<lambda>(r', l). if r' = r
                     then (r', case l of EntryLine e \<Rightarrow> EntryLine (EntryLine_setattr a e)
                                       | _ \<Rightarrow> l)
                     else (r', l)) ls"

definition TimesheetEntry_setattr ::
    "entry_assignment \<Rightarrow> timesheet_entry \<Rightarrow> collection \<Rightarrow> timesheet_entry \<times> collection" where
  \<comment> \<open>\<open>TimesheetEntry.__setattr__\<close>\<close>
  "TimesheetEntry_setattr a x c =
     (let x' = store_entry_attr a x in
      case entry_line x' of
        None \<Rightarrow> (x', c)
      | Some r \<Rightarrow>
          (case forwarded a of
             None \<Rightarrow> (x', c)
           | Some la \<Rightarrow> (x', c\<lparr>lines := update_line r la (lines c)\<rparr>)))"

definition TimesheetEntry_init :: "string \<Rightarrow> duration \<Rightarrow> string \<Rightarrow> timesheet_entry" where
  \<comment> \<open>\<open>TimesheetEntry.__init__\<close>: \<open>line\<close> is \<open>None\<close>, so nothing is forwarded\<close>
  "TimesheetEntry_init alias duration description =
     \<lparr>entry_line = None, entry_ignored = False, entry_commented = False,
      entry_alias = alias, entry_description = description, entry_duration = duration\<rparr>"

subsection \<open>\<open>TimesheetEntry.hours\<close>\<close>

definition valid_time :: "time \<Rightarrow> bool" where
  \<comment> \<open>the values that a \<open>datetime.time\<close> object can hold\<close>
  "valid_time t = (0 \<le> hour t \<and> hour t \<le> 23 \<and> 0 \<le> minute t \<and> minute t \<le> 59)"

definition minutes_of :: "time \<Rightarrow> int" where
  "minutes_of t = 60 * hour t + minute t"

definition timedelta_seconds :: "time \<Rightarrow> time \<Rightarrow> int" where
  \<comment> \<open>\<open>(time_end - time_start).seconds\<close> for two datetimes of the same day with second 0
      and equal microseconds: a timedelta keeps \<open>0 \<le> seconds < 86400\<close> and puts the rest
      into \<open>days\<close>\<close>
  "timedelta_seconds time_start time_end =
     (60 * (minutes_of time_end - minutes_of time_start)) mod 86400"

definition hours :: "timesheet_entry \<Rightarrow> pyfloat" where
  "hours x =
     (case entry_duration x of
        TimeRange s e \<Rightarrow>
          (case (s, e) of
             (Some time_start, Some time_end) \<Rightarrow>
               Finite (of_int (timedelta_seconds time_start time_end) / 3600)
           | _ \<Rightarrow> Finite 0)
      | Hours h \<Rightarrow> h)"

subsection \<open>The text lines of the collection\<close>

text \<open>
  A method that changes the collection returns the exception it raised, if any, and the
  collection as it is at that moment.
\<close>

definition list_insert :: "nat \<Rightarrow> 'a \<Rightarrow> 'a list \<Rightarrow> 'a list" where
  \<comment> \<open>\<open>xs.insert(i, x)\<close> for \<open>i \<ge> 0\<close>; past the end it appends\<close>
  "list_insert i x xs = take i xs @ [x] @ drop i xs"

definition slice_to :: "int \<Rightarrow> 'a list \<Rightarrow> 'a list" where
  \<comment> \<open>\<open>xs[:k]\<close>; a negative \<open>k\<close> counts from the end\<close>
  "slice_to k xs =
     (if k < 0 then take (nat (int (length xs) + k)) xs else take (nat k) xs)"

fun trim_scan :: "line list \<Rightarrow> nat \<Rightarrow> nat option \<Rightarrow> error + nat option" where
  \<comment> \<open>one loop of \<open>trim\<close>: the index of the last line of the leading run of lines whose
      text is empty after \<open>strip()\<close>; every line is an instance of \<open>TextLine\<close>, and a text
      that is \<open>None\<close> has no \<open>strip\<close>\<close>
  "trim_scan [] lineno found = Inr found"
| "trim_scan (l # ls) lineno found =
     (case text_of l of
        None \<Rightarrow> Inl (AttributeError ''NoneType object has no attribute strip'')
      | Some t \<Rightarrow>
          if strip t = [] then trim_scan ls (Suc lineno) (Some lineno) else Inr found)"

definition trim :: "collection \<Rightarrow> error option \<times> collection" where
  "trim c =
     (case trim_scan (map snd (lines c)) 0 None of
        Inl e \<Rightarrow> (Some e, c)
      | Inr trim_top \<Rightarrow>
          (case trim_scan (rev (map snd (lines c))) 0 None of
             Inl e \<Rightarrow> (Some e, c)
           | Inr trim_bottom \<Rightarrow>
               (let ls1 = (case trim_top of
                             None \<Rightarrow> lines c
                           | Some t \<Rightarrow> drop (t + 1) (lines c));
                    ls2 = (case trim_bottom of
                             None \<Rightarrow> ls1
                           | Some b \<Rightarrow> slice_to (int (length ls1) - int b - 1) ls1)
                in (None, c\<lparr>lines := ls2\<rparr>))))"

definition delete_entries :: "timesheet_entry list \<Rightarrow> collection \<Rightarrow> error option \<times> collection" where
  \<comment> \<open>decorated with \<open>synchronized\<close>: without the flag the body does not run\<close>
  "delete_entries es c =
     (if \<not> synchronized c then (None, c)
      else
        (let lines_to_delete = map entry_line es
         in trim (c\<lparr>lines := filter (\<lambda>(r, l). \<not> is_EntryLine l \<or> Some r \<notin> set lines_to_delete)
                                    (lines c)\<rparr>)))"

definition delete_entry :: "timesheet_entry \<Rightarrow> collection \<Rightarrow> error option \<times> collection" where
  "delete_entry e c = delete_entries [e] c"

definition delete_date :: "date \<Rightarrow> collection \<Rightarrow> error option \<times> collection" where
  "delete_date d c =
     (if \<not> synchronized c then (None, c)
      else trim (c\<lparr>lines := filter (\<lambda>(r, l). \<not> is_DateLine_of d l) (lines c)\<rparr>))"

definition two_digits :: "int \<Rightarrow> string" where
  "two_digits n = [char_of (48 + (n div 10) mod 10), char_of (48 + n mod 10)]"

definition unicode_strftime :: "date \<Rightarrow> string" where
  \<comment> \<open>Modelled from the spec: \<open>taxi.utils.date.unicode_strftime\<close> is not among the sources;
      the text of a \<open>DateMarker\<close> without one is "generated from \<open>date\<close> using a fixed display
      format", which \<open>DateLine.__init__\<close> gives as \<open>%d.%m.%Y\<close>\<close>
  "unicode_strftime d =
     two_digits (day d) @ ''.'' @ two_digits (month d) @ ''.''
       @ two_digits (year d div 100) @ two_digits (year d mod 100)"

definition DateLine_init :: "date \<Rightarrow> string option \<Rightarrow> line" where
  "DateLine_init d text =
     (case text of Some t \<Rightarrow> DateLine d t | None \<Rightarrow> DateLine d (unicode_strftime d))"

definition add_date :: "date \<Rightarrow> collection \<Rightarrow> collection" where
  "add_date d c =
     (if \<not> synchronized c then c
      else if add_date_to_bottom c then
        c\<lparr>lines := lines c @ [(next_ref c, DateLine_init d None)],
          next_ref := Suc (next_ref c)\<rparr>
      else
        c\<lparr>lines := list_insert 0 (Suc (next_ref c), DateLine_init d None)
                     (list_insert 0 (next_ref c, TextLine []) (lines c)),
          next_ref := Suc (Suc (next_ref c))\<rparr>)"

fun add_entry_scan :: "date \<Rightarrow> bool \<Rightarrow> nat option \<Rightarrow> nat \<Rightarrow> line list \<Rightarrow> nat option" where
  \<comment> \<open>the loop of \<open>add_entry\<close> over \<open>enumerate(self.lines)\<close>, with \<open>in_date\<close>, \<open>insert_at\<close> and
      \<open>lineno\<close>; it returns \<open>insert_at\<close>\<close>
  "add_entry_scan d in_date insert_at lineno [] = insert_at"
| "add_entry_scan d in_date insert_at lineno (l # ls) =
     (if is_DateLine_of d l then add_entry_scan d True (Some lineno) (Suc lineno) ls
      else if in_date then
        (if is_EntryLine l then add_entry_scan d in_date (Some lineno) (Suc lineno) ls
         else if is_DateLine l then insert_at
         else add_entry_scan d in_date insert_at (Suc lineno) ls)
      else add_entry_scan d in_date insert_at (Suc lineno) ls)"

definition add_entry ::
    "date \<Rightarrow> timesheet_entry \<Rightarrow> collection \<Rightarrow> error option \<times> timesheet_entry \<times> collection" where
  \<comment> \<open>the entry is returned as the method leaves it: bound to the new line\<close>
  "add_entry d entry c =
     (if \<not> synchronized c then (None, entry, c)
      else
        (let insert_at = add_entry_scan d False None 0 (map snd (lines c));
             new_ref = next_ref c;
             new_line = EntryLine (EntryLine_init (entry_alias entry) (entry_duration entry)
                                     (entry_description entry) None);
             (entry1, c1) = TimesheetEntry_setattr (Set_line (Some new_ref)) entry
                              (c\<lparr>next_ref := Suc new_ref\<rparr>)
         in case insert_at of
              None \<Rightarrow>
                (Some (TypeError ''unsupported operand type(s) for +: NoneType and int''),
                 entry1, c1)
            | Some i \<Rightarrow>
                (let ls1 = list_insert (i + 1) (new_ref, new_line) (lines c1)
                 in case drop i ls1 of
                      [] \<Rightarrow> (Some (IndexError ''list index out of range''), entry1,
                             c1\<lparr>lines := ls1\<rparr>)
                    | (r, l) # _ \<Rightarrow>
                        if \<not> is_EntryLine l then
                          (None, entry1,
                           c1\<lparr>lines := list_insert (i + 1) (next_ref c1, TextLine []) ls1,
                              next_ref := Suc (next_ref c1)\<rparr>)
                        else (None, entry1, c1\<lparr>lines := ls1\<rparr>))))"

subsection \<open>The dictionary of entries lists\<close>

text \<open>
  An \<open>EntriesList\<close> is created by the collection for a date and lives under that date, so
  a method of a list takes the date of the list; its \<open>entries_collection\<close> is the
  collection, never \<open>None\<close>.
\<close>

definition getitem :: "date \<Rightarrow> collection \<Rightarrow> collection" where
  \<comment> \<open>\<open>self[key]\<close> of the \<open>defaultdict\<close>, with \<open>__missing__\<close>; the list is then
      \<open>entries c key\<close>\<close>
  "getitem key c =
     (case entries c key of
        Some _ \<Rightarrow> c
      | None \<Rightarrow>
          (let c1 = c\<lparr>entries := (entries c)(key \<mapsto> [])\<rparr>
           in if synchronized c1 then add_date key c1 else c1))"

definition chain_start :: "timesheet_entry list \<Rightarrow> timesheet_entry \<Rightarrow> duration option" where
  \<comment> \<open>the condition of \<open>EntriesList.append\<close>, the list being the one before the append, and
      the duration then assigned: \<open>(self[-2].duration[1], x.duration[1])\<close>\<close>
  "chain_start xs x =
     (if xs = [] then None
      else case (entry_duration x, entry_duration (last xs)) of
             (TimeRange None e, TimeRange _ prev_end) \<Rightarrow> Some (TimeRange prev_end e)
           | _ \<Rightarrow> None)"

definition EntriesList_append ::
    "date \<Rightarrow> timesheet_entry \<Rightarrow> collection \<Rightarrow> error option \<times> collection" where
  "EntriesList_append d x c =
     (case entries c d of
        None \<Rightarrow> (Some (KeyError ''no entries list for the date''), c)
      | Some xs \<Rightarrow>
          (let (x1, c1) = (case chain_start xs x of
                             None \<Rightarrow> (x, c)
                           | Some dur \<Rightarrow> TimesheetEntry_setattr (Set_duration dur) x c);
               (err, x2, c2) = add_entry d x1 c1
           in (err, c2\<lparr>entries := (entries c2)(d \<mapsto> xs @ [x2])\<rparr>)))"

definition py_index :: "'a list \<Rightarrow> int \<Rightarrow> error + nat" where
  \<comment> \<open>the position that \<open>xs[key]\<close> reads\<close>
  "py_index xs key =
     (let n = int (length xs); j = (if key < 0 then n + key else key)
      in if 0 \<le> j \<and> j < n then Inr (nat j) else Inl (IndexError ''list index out of range''))"

definition EntriesList_delitem ::
    "date \<Rightarrow> int \<Rightarrow> collection \<Rightarrow> error option \<times> collection" where
  \<comment> \<open>\<open>EntriesList.__delitem__(key)\<close> on the list of the date\<close>
  "EntriesList_delitem d key c =
     (case entries c d of
        None \<Rightarrow> (Some (KeyError ''no entries list for the date''), c)
      | Some xs \<Rightarrow>
          (case py_index xs key of
             Inl e \<Rightarrow> (Some e, c)
           | Inr i \<Rightarrow>
               (case delete_entry (xs ! i) c of
                  (Some e, c1) \<Rightarrow> (Some e, c1)
                | (None, c1) \<Rightarrow>
                    (let xs' = take i xs @ drop (Suc i) xs;
                         c2 = c1\<lparr>entries := (entries c1)(d \<mapsto> xs')\<rparr>
                     in if xs' = [] then delete_date d c2 else (None, c2)))))"

subsection \<open>Bulk load\<close>

fun load_lines ::
    "(nat \<times> line) list \<Rightarrow> date option \<Rightarrow> collection \<Rightarrow> error option \<times> collection" where
  \<comment> \<open>the loop of \<open>init_from_str\<close> over \<open>self.lines\<close>, with \<open>current_date\<close>, which is unbound
      until the first \<open>DateLine\<close>\<close>
  "load_lines [] current_date c = (None, c)"
| "load_lines ((r, l) # rest) current_date c =
     (case l of
        DateLine d _ \<Rightarrow> load_lines rest (Some d) c
      | EntryLine e \<Rightarrow>
          (case current_date of
             None \<Rightarrow> (Some (UnboundLocalError ''current_date''), c)
           | Some d \<Rightarrow>
               (let timesheet_entry =
                      TimesheetEntry_init (EntryLine_alias e) (line_duration e)
                        (line_description e);
                    (entry1, c1) = TimesheetEntry_setattr (Set_line (Some r)) timesheet_entry c
                in case EntriesList_append d entry1 (getitem d c1) of
                     (Some err, c2) \<Rightarrow> (Some err, c2)
                   | (None, c2) \<Rightarrow> load_lines rest current_date c2))
      | TextLine _ \<Rightarrow> load_lines rest current_date c)"

definition init_from_str :: "int \<Rightarrow> string \<Rightarrow> collection \<Rightarrow> error option \<times> collection" where
  \<comment> \<open>the loop runs over the lines as parsed: inside \<open>__init__\<close> the flag is off, and then
      nothing inserts into or removes from \<open>self.lines\<close> while it is iterated\<close>
  "init_from_str cy text c =
     (case parse cy text of
        Inl e \<Rightarrow> (Some e, c)
      | Inr ls \<Rightarrow>
          (let located = zip [next_ref c ..< next_ref c + length ls] ls;
               c1 = c\<lparr>lines := located, next_ref := next_ref c + length ls\<rparr>
           in load_lines located None c1))"

definition empty_collection :: collection where
  \<comment> \<open>the attributes that \<open>__init__\<close> sets before it looks at \<open>entries\<close>\<close>
  "empty_collection =
     \<lparr>lines = [], next_ref = 0, entries = (\<lambda>_. None), synchronized = True,
      add_date_to_bottom = False\<rparr>"

definition EntriesCollection_init :: "int \<Rightarrow> string option \<Rightarrow> error option \<times> collection" where
  \<comment> \<open>\<open>EntriesCollection.__init__(entries=None)\<close>: \<open>if entries\<close> holds for a non-empty string;
      the \<open>finally\<close> clause runs on both exits of \<open>init_from_str\<close>\<close>
  "EntriesCollection_init cy entries_text =
     (case entries_text of
        None \<Rightarrow> (None, empty_collection)
      | Some text \<Rightarrow>
          if text = [] then (None, empty_collection)
          else
            (let (err, c) = init_from_str cy text (empty_collection\<lparr>synchronized := False\<rparr>)
             in (err, c\<lparr>synchronized := True\<rparr>)))"

definition serialize :: "collection \<Rightarrow> string option" where
  \<comment> \<open>Modelled from the spec: the function that writes the Document out is not among the
      sources; it is "joining the texts of the Document's lines with newlines", which needs
      every text to be a string\<close>
  "serialize c =
     (if list_all (\<lambda>(r, l). text_of l \<noteq> None) (lines c)
      then Some (join [LF] (map (\<lambda>(r, l). the (text_of l)) (lines c)))
      else None)"


section \<open>The duration grammar: literal cases and unset endpoints\<close>

text \<open>
  Claim C2. \<open>parse_time\<close> maps each literal of its docstring as stated: the three decimal
  tokens to numbers (\<open>0900\<close> to the number 900, not a time), the four range tokens to their
  pairs, and \<open>foo\<close>, \<open>-2500\<close>, \<open>-1061\<close> and \<open>-\<close> to a ParseError (the hour and the minute
  out of range with the message of \<open>datetime.time\<close>).
\<close>

theorem parse_time_literal_cases:
  "parse_time ''1.75'' = Inr (Hours (Finite (7 / 4)))
   \<and> parse_time ''3'' = Inr (Hours (Finite 3))
   \<and> parse_time ''0900'' = Inr (Hours (Finite 900))
   \<and> parse_time ''0900-1015'' = Inr (TimeRange (Some (Time 9 0)) (Some (Time 10 15)))
   \<and> parse_time ''09:00-10:15'' = Inr (TimeRange (Some (Time 9 0)) (Some (Time 10 15)))
   \<and> parse_time ''09:00-?'' = Inr (TimeRange (Some (Time 9 0)) None)
   \<and> parse_time ''-10:15'' = Inr (TimeRange None (Some (Time 10 15)))
   \<and> parse_time ''foo''
       = Inl (ParseError ''The duration must be a float number or a HH:mm string'')
   \<and> parse_time ''-2500'' = Inl (ParseError ''hour must be in 0..23'')
   \<and> parse_time ''-1061'' = Inl (ParseError ''minute must be in 0..59'')
   \<and> parse_time ''-''
       = Inl (ParseError ''The duration must be a float number or a HH:mm string'')"
  by code_simp

lemma hhmm_groups:
  "(g', r') \<in> set (rx_run (hhmm i j) (g, s)) \<Longrightarrow> i \<noteq> j \<Longrightarrow>
     g' i \<noteq> None \<and> g' j \<noteq> None \<and> (\<forall>k. k \<noteq> i \<and> k \<noteq> j \<longrightarrow> g' k = g k)"
  by (auto simp: hhmm_def digits12_def opt_def split: list.splits if_splits)

lemma hhmm_nondigit:
  "\<not> isdigit c \<Longrightarrow> rx_run (hhmm i j) (g, c # s) = []"
  by (simp add: hhmm_def digits12_def opt_def)

lemma time_tail_run:
  "rx_run time_tail (g, s) =
     (case s of [] \<Rightarrow> [] | c # r \<Rightarrow>
        if c = CHR ''-'' then rx_run (hhmm 3 4) (g, r) @ rx_run (Lit CHR ''?'') (g, r) else [])"
  by (simp add: time_tail_def split: list.splits)

lemma time_tail_groups:
  assumes "(g', r') \<in> set (rx_run time_tail (g, s))"
  shows "g' 1 = g 1 \<and> g' 2 = g 2"
  using assms hhmm_groups[of g' r' 3 4 g "tl s"]
  by (auto simp: time_tail_run split: list.splits if_splits)

lemma time_rx_run:
  "rx_run time_rx (g, s) =
     concat (map (rx_run time_tail) (rx_run (hhmm 1 2) (g, s))) @ rx_run time_tail (g, s)"
  by (simp add: time_rx_def time_tail_def opt_def)

lemma parse_time_unset:
  "parse_time s = Inr (TimeRange None None) \<longleftrightarrow>
     (\<exists>g. re_match time_rx s = Some g \<and> g 1 = None \<and> g 2 = None
           \<and> \<not> (g 3 \<noteq> None \<and> g 4 \<noteq> None))"
  by (auto simp: parse_time_def as_parse_error_def bindE_def time_end_of_def py_int_def
        py_time_def split: option.splits sum.splits error.splits if_splits)

lemma isdigit_minus: "\<not> isdigit CHR ''-''"
  by (simp add: isdigit_def)

lemma isdigit_qmark: "\<not> isdigit CHR ''?''"
  by (simp add: isdigit_def)

lemma re_match_dash_qmark:
  "re_match time_rx (CHR ''-'' # CHR ''?'' # r) = Some (\<lambda>_. None)"
  by (simp add: re_match_def time_rx_run time_tail_run hhmm_nondigit isdigit_minus isdigit_qmark)

lemma hd_concat_mem:
  "concat xss \<noteq> [] \<Longrightarrow> \<exists>xs \<in> set xss. hd (concat xss) \<in> set xs"
  by (induction xss) (auto simp: hd_append)

lemma re_match_unset_start:
  assumes m: "re_match time_rx s = Some g" and g1: "g 1 = None"
      and g34: "\<not> (g 3 \<noteq> None \<and> g 4 \<noteq> None)"
  shows "take 2 s = ''-?''"
proof -
  let ?g0 = "\<lambda>_. None :: string option"
  let ?A = "concat (map (rx_run time_tail) (rx_run (hhmm 1 2) (?g0, s)))"
  from m obtain r rest where run: "rx_run time_rx (?g0, s) = (g, r) # rest"
    by (auto simp: re_match_def split: list.splits)
  have A_nil: "?A = []"
  proof (rule ccontr)
    assume ne: "?A \<noteq> []"
    then have "hd ?A = (g, r)" using run by (metis time_rx_run hd_append2 list.sel(1))
    with hd_concat_mem[OF ne] obtain p where
      p: "p \<in> set (rx_run (hhmm 1 2) (?g0, s))" and gr: "(g, r) \<in> set (rx_run time_tail p)"
      by auto
    obtain g1' r1 where [simp]: "p = (g1', r1)" by (cases p)
    from p hhmm_groups[of g1' r1 1 2 ?g0 s] have "g1' 1 \<noteq> None" by simp
    moreover from gr time_tail_groups[of g r g1' r1] have "g 1 = g1' 1" by simp
    ultimately show False using g1 by simp
  qed
  from run[unfolded time_rx_run A_nil]
  have t: "rx_run time_tail (?g0, s) = (g, r) # rest" by simp
  then obtain s' where s: "s = CHR ''-'' # s'"
    by (auto simp: time_tail_run split: list.splits if_splits)
  have "rx_run (hhmm 3 4) (?g0, s') = []"
  proof (rule ccontr)
    assume ne: "rx_run (hhmm 3 4) (?g0, s') \<noteq> []"
    then have "(g, r) \<in> set (rx_run (hhmm 3 4) (?g0, s'))"
      using t s by (cases "rx_run (hhmm 3 4) (?g0, s')") (auto simp: time_tail_run)
    from hhmm_groups[OF this] g34 show False by simp
  qed
  with t s show ?thesis by (auto simp: time_tail_run split: list.splits if_splits)
qed

text \<open>
  Claim C7 as stated fails: the token \<open>-?\<close> has no start, and its end is the literal
  question mark, so both endpoints of the parsed range are unset.
\<close>

theorem parse_time_both_unset_counterexample:
  "parse_time ''-?'' = Inr (TimeRange None None)"
  by code_simp

text \<open>
  Claim C7, amended. \<open>parse_time\<close> returns the range with both endpoints unset exactly for
  the tokens that begin with \<open>-?\<close>; every other token of the time-range branch has at least
  one endpoint set.
\<close>

theorem parse_time_both_unset_iff:
  "parse_time s = Inr (TimeRange None None) \<longleftrightarrow> take 2 s = ''-?''"
proof
  assume "parse_time s = Inr (TimeRange None None)"
  then show "take 2 s = ''-?''" using re_match_unset_start by (auto simp: parse_time_unset)
next
  assume "take 2 s = ''-?''"
  then obtain r where "s = CHR ''-'' # CHR ''?'' # r"
    by (cases s; cases "tl s") auto
  then show "parse_time s = Inr (TimeRange None None)"
    by (simp add: parse_time_unset re_match_dash_qmark)
qed

end
